theory Spec2Isabelle
  imports Complex_Main "HOL-Library.AList"
begin

section \<open>JavaScript values\<close>

text \<open>
  The program of \<^verbatim>\<open>src/index.js\<close> handles the values that \<^verbatim>\<open>JSON.parse\<close> returns
  and the value \<^verbatim>\<open>undefined\<close> that reading a missing property gives.  No arithmetic is done
  on a number: it is only tested for truthiness and turned into a property key, so a number
  is held as the text that \<^verbatim>\<open>Number::toString\<close> prints for it (\<^verbatim>\<open>0\<close> for both zeros).
  An object is the list of its own properties, in creation order, with distinct keys.
\<close>

datatype jsval =
    JUndefined
  | JNull
  | JBool bool
  | JNum string
  | JStr string
  | JArr "jsval list"
  | JObj "(string \<times> jsval) list"

datatype error =
    TypeError
  | SyntaxError
  | ApiError string

text \<open>Truthiness, as the operator \<^verbatim>\<open>||\<close> tests it.\<close>

fun truthy :: "jsval \<Rightarrow> bool" where
  "truthy JUndefined = False"
| "truthy JNull = False"
| "truthy (JBool b) = b"
| "truthy (JNum n) = (n \<noteq> ''0'' \<and> n \<noteq> ''NaN'')"
| "truthy (JStr s) = (s \<noteq> [])"
| "truthy (JArr xs) = True"
| "truthy (JObj ps) = True"

text \<open>\<^verbatim>\<open>a || b\<close>: the left operand when it is truthy, the right one otherwise.\<close>

definition js_or :: "jsval \<Rightarrow> jsval \<Rightarrow> jsval" where
  "js_or a b = (if truthy a then a else b)"

text \<open>
  Reading the property \<open>name\<close> of a value, for the four names the program reads
  (\<^verbatim>\<open>mappings\<close>, \<^verbatim>\<open>zoroField\<close>, \<^verbatim>\<open>direct\<close>, \<^verbatim>\<open>formula\<close>); none of them is defined on a
  built-in prototype.  Reading a property of \<^verbatim>\<open>null\<close> or \<^verbatim>\<open>undefined\<close> throws a TypeError;
  a property an object does not have reads as \<^verbatim>\<open>undefined\<close>.
\<close>

fun get_member :: "jsval \<Rightarrow> string \<Rightarrow> error + jsval" where
  "get_member JUndefined name = Inl TypeError"
| "get_member JNull name = Inl TypeError"
| "get_member (JObj ps) name = Inr (case map_of ps name of Some v \<Rightarrow> v | None \<Rightarrow> JUndefined)"
| "get_member v name = Inr JUndefined"

text \<open>\<^verbatim>\<open>Array.prototype.join\<close> on strings.\<close>

fun join :: "string \<Rightarrow> string list \<Rightarrow> string" where
  "join sep [] = []"
| "join sep [x] = x"
| "join sep (x # y # ys) = x @ sep @ join sep (y # ys)"

text \<open>Results of a left-to-right evaluation: the first exception ends it.\<close>

fun collect_results :: "(error + 'a) list \<Rightarrow> error + 'a list" where
  "collect_results [] = Inr []"
| "collect_results (Inl e # rs) = Inl e"
| "collect_results (Inr x # rs) = (case collect_results rs of Inl e \<Rightarrow> Inl e | Inr xs \<Rightarrow> Inr (x # xs))"

text \<open>
  The conversion of a value to a property key (\<^verbatim>\<open>ToPropertyKey\<close>, for values without symbols:
  \<^verbatim>\<open>ToString\<close>).  An array is joined with commas, \<^verbatim>\<open>null\<close> and \<^verbatim>\<open>undefined\<close> elements printing
  as the empty string.  A parsed object prints through \<^verbatim>\<open>Object.prototype.toString\<close>, unless
  it has an own property \<^verbatim>\<open>toString\<close>: that one is not callable, neither it nor
  \<^verbatim>\<open>valueOf\<close> yields a primitive, and the conversion throws a TypeError.
\<close>

fun to_property_key :: "jsval \<Rightarrow> error + string" where
  "to_property_key JUndefined = Inr ''undefined''"
| "to_property_key JNull = Inr ''null''"
| "to_property_key (JBool b) = Inr (if b then ''true'' else ''false'')"
| "to_property_key (JNum n) = Inr n"
| "to_property_key (JStr s) = Inr s"
| "to_property_key (JArr xs) =
     (case collect_results
             (map (\<lambda>x. if x = JUndefined \<or> x = JNull then Inr [] else to_property_key x) xs) of
        Inl e \<Rightarrow> Inl e
      | Inr ss \<Rightarrow> Inr (join '','' ss))"
| "to_property_key (JObj ps) =
     (if ''toString'' \<in> fst ` set ps then Inl TypeError else Inr ''[object Object]'')"

section \<open>The agent and the world around it\<close>

text \<open>
  \<^verbatim>\<open>class FieldMappingAgent\<close>: the fields \<^verbatim>\<open>zoroFields\<close> and \<^verbatim>\<open>mappingRules\<close>; the client
  \<^verbatim>\<open>openai\<close> is the oracle below.  A stored rule is \<^verbatim>\<open>{supplierFile, mappings}\<close>.
\<close>

record rule =
  supplierFile :: string
  mappings :: jsval

record agent =
  zoroFields :: "string list"
  mappingRules :: "rule list"

text \<open>The constructor.\<close>

definition new_agent :: agent where
  "new_agent = \<lparr>zoroFields = [], mappingRules = []\<rparr>"

text \<open>The request of \<^verbatim>\<open>chat.completions.create\<close> and the part of its response that is read.\<close>

record request =
  model :: string
  system_content :: string
  user_content :: string
  temperature :: rat
  max_tokens :: nat
  response_format :: string

record message =
  content :: "string option"

record choice =
  message :: message

record response =
  choices :: "choice list"

text \<open>
  What the program prints.  \<open>LogJson v\<close> stands for the line
  \<^verbatim>\<open>JSON.stringify(v, null, 2)\<close>.
\<close>

datatype log_line =
    LogError string error
  | LogText string
  | LogJson jsval

text \<open>The effects outside the agent: the calls sent to the oracle, and the console.\<close>

record world =
  oracle_calls :: "request list"
  console :: "log_line list"

section \<open>Loading the field lists\<close>

definition loadZoroFields :: "agent \<Rightarrow> agent" where
  "loadZoroFields this = this\<lparr>zoroFields :=
     [''supplierSku'', ''product_id'', ''product_name'', ''price'', ''quantity'',
      ''is_available'', ''total_value'']\<rparr>"

definition loadSupplierFields :: "string list" where
  "loadSupplierFields =
     [''PRODUCTCODE'', ''STOCK'', ''EXPECTEDDATE'', ''stock no'', ''primary'', ''secondary'',
      ''tertiary'', ''cstock'', ''direct'', ''isStocked'']"

section \<open>The prompt\<close>

definition prompt_head :: string where
  \<open>prompt_head =
    ''\<newline>'' @
    ''      I need to map supplier fields to Zoro fields. Here are the details:\<newline>'' @
    ''\<newline>'' @
    ''      Zoro Fields: ''\<close>

definition prompt_mid :: string where
  \<open>prompt_mid =
    ''\<newline>'' @
    ''\<newline>'' @
    ''      Supplier Fields: ''\<close>

definition prompt_tail :: string where
  \<open>prompt_tail =
    ''\<newline>'' @
    ''\<newline>'' @
    ''      For each Zoro field, please suggest either:\<newline>'' @
    ''      1. A direct mapping to a single supplier field (if there's an obvious match)\<newline>'' @
    ''       2. For formulas:\<newline>'' @
    ''         - Use JavaScript syntax compatible with expr-eval\<newline>'' @
    ''         - For conditionals, use ternary format: (condition) ? trueValue : falseValue\<newline>'' @
    ''         - Compare strings with === and wrap in quotes: status === "YES"\<newline>'' @
    ''         - Use standard math operators: +, -, *, /\<newline>'' @
    ''\<newline>'' @
    ''      The formula can be:\<newline>'' @
    ''      - Mathematical operations (e.g., "cost + tax = price")\<newline>'' @
    ''      - Conditional mappings (e.g., "status == 'YES'")\<newline>'' @
    ''      - String concatenations (e.g., "first_name + ' ' + last_name = full_name")\<newline>'' @
    ''\<newline>'' @
    ''      Return your response as a JSON object with the following structure:\<newline>'' @
    ''      {\<newline>'' @
    ''        "mappings": [\<newline>'' @
    ''          {\<newline>'' @
    ''            "zoroField": "field_name",\<newline>'' @
    ''            "direct": "supplier_field_name", // or empty string if using formula\<newline>'' @
    ''            "formula": "" // or the formula if no direct mapping\<newline>'' @
    ''          },\<newline>'' @
    ''          ...\<newline>'' @
    ''        ]\<newline>'' @
    ''      }\<newline>'' @
    ''\<newline>'' @
    ''      Provide the most logical mappings you can identify.\<newline>'' @
    ''    ''\<close>

definition createMappingPrompt :: "string list \<Rightarrow> string list \<Rightarrow> string" where
  "createMappingPrompt zoroFields' supplierFields =
     prompt_head @ join '', '' zoroFields' @ prompt_mid @ join '', '' supplierFields @ prompt_tail"

definition system_message :: string where
  "system_message =
     ''You are a helpful assistant that helps map supplier fields to Zoro fields. '' @
     ''For each Zoro field, suggest either a direct mapping from supplier fields or '' @
     ''a formula that combines multiple supplier fields. '' @
     ''Respond with a JSON object containing the mapping rules.''"

section \<open>Requesting suggestions\<close>

text \<open>
  \<^verbatim>\<open>generateMappingSuggestions\<close>.  The oracle (\<^verbatim>\<open>this.openai.chat.completions.create\<close>) and
  \<^verbatim>\<open>JSON.parse\<close> are not code of the program: they are parameters, each returning a value or
  the exception it throws.  The request carries \<^verbatim>\<open>prompt\<close>; the string \<^verbatim>\<open>fullPrompt\<close> is built
  and not used.  \<^verbatim>\<open>response.choices[0]\<close> of an empty array is \<^verbatim>\<open>undefined\<close>, and reading its
  \<^verbatim>\<open>message\<close> throws a TypeError; \<^verbatim>\<open>JSON.parse\<close> turns a \<^verbatim>\<open>null\<close> content into the text
  \<^verbatim>\<open>null\<close> before parsing it.  The handler prints the exception and throws it again.
\<close>

definition build_request :: "string \<Rightarrow> request" where
  "build_request prompt =
     \<lparr>model = ''gpt-4o'', system_content = system_message, user_content = prompt,
      temperature = 3 / 10, max_tokens = 1000, response_format = ''json_object''\<rparr>"

definition read_content :: "response \<Rightarrow> error + string" where
  "read_content r =
     (case choices r of
        [] \<Rightarrow> Inl TypeError
      | c # cs \<Rightarrow> Inr (case content (message c) of None \<Rightarrow> ''null'' | Some s \<Rightarrow> s))"

definition generateMappingSuggestions ::
  "(request \<Rightarrow> error + response) \<Rightarrow> (string \<Rightarrow> error + jsval) \<Rightarrow>
   string list \<Rightarrow> string list \<Rightarrow> world \<Rightarrow> (error + jsval) \<times> world" where
  "generateMappingSuggestions oracle JSON_parse zoroFields' supplierFields w =
     (let prompt = createMappingPrompt zoroFields' supplierFields;
          req = build_request prompt;
          w1 = w\<lparr>oracle_calls := oracle_calls w @ [req]\<rparr>;
          res = (case oracle req of
                   Inl e \<Rightarrow> Inl e
                 | Inr r \<Rightarrow> (case read_content r of
                               Inl e \<Rightarrow> Inl e
                             | Inr text \<Rightarrow> JSON_parse text))
      in case res of
           Inl e \<Rightarrow>
             (Inl e, w1\<lparr>console := console w1 @
                         [LogError ''Error generating mapping suggestions:'' e]\<rparr>)
         | Inr v \<Rightarrow> (Inr v, w1))"

section \<open>Processing a supplier\<close>

text \<open>
  \<^verbatim>\<open>processAllSupplierFiles\<close>: loads the target fields, then, inside \<^verbatim>\<open>try\<close>, asks for the
  suggestions and appends a rule holding \<^verbatim>\<open>mappings.mappings\<close>.  The handler prints the
  exception and returns normally.
\<close>

definition catch_processing :: "agent \<Rightarrow> world \<Rightarrow> error \<Rightarrow> (error + unit) \<times> agent \<times> world" where
  "catch_processing this w e =
     (Inr (), this, w\<lparr>console := console w @ [LogError ''Error processing'' e]\<rparr>)"

definition processAllSupplierFiles ::
  "(request \<Rightarrow> error + response) \<Rightarrow> (string \<Rightarrow> error + jsval) \<Rightarrow>
   agent \<Rightarrow> world \<Rightarrow> (error + unit) \<times> agent \<times> world" where
  "processAllSupplierFiles oracle JSON_parse this w =
     (let this1 = loadZoroFields this;
          supplierFields = loadSupplierFields;
          (res, w1) = generateMappingSuggestions oracle JSON_parse (zoroFields this1) supplierFields w
      in case res of
           Inl e \<Rightarrow> catch_processing this1 w1 e
         | Inr parsed \<Rightarrow>
             (case get_member parsed ''mappings'' of
                Inl e \<Rightarrow> catch_processing this1 w1 e
              | Inr m \<Rightarrow>
                  (Inr (),
                   this1\<lparr>mappingRules :=
                            mappingRules this1 @ [\<lparr>supplierFile = [], mappings = m\<rparr>]\<rparr>,
                   w1\<lparr>console := console w1 @
                                   [LogText ''Generated mappings'', LogJson parsed]\<rparr>)))"

section \<open>The final mapping structure\<close>

text \<open>An entry of a table: the object \<^verbatim>\<open>{direct, formula}\<close>.\<close>

record entry =
  direct :: jsval
  formula :: jsval

text \<open>
  A table is the object \<^verbatim>\<open>formattedMappings\<close>: the list of its own properties in creation
  order, and its prototype when an assignment has replaced it (\<open>None\<close> stands for
  \<^verbatim>\<open>Object.prototype\<close>, the prototype of \<^verbatim>\<open>{}\<close>).  An assignment \<^verbatim>\<open>o[k] = v\<close> replaces
  the value of an own property in place and appends a new one.  The key \<^verbatim>\<open>__proto__\<close> is the
  exception: the assignment reaches the setter of \<^verbatim>\<open>Object.prototype\<close>, which makes the
  object \<open>v\<close> the prototype and creates no own property.
\<close>

record table =
  props :: "(string \<times> entry) list"
  prototype :: "entry option"

definition empty_table :: table where
  "empty_table = \<lparr>props = [], prototype = None\<rparr>"

definition set_property :: "table \<Rightarrow> string \<Rightarrow> entry \<Rightarrow> table" where
  "set_property tbl k v =
     (if k = ''__proto__'' then tbl\<lparr>prototype := Some v\<rparr>
      else tbl\<lparr>props := AList.update k v (props tbl)\<rparr>)"

text \<open>
  The entry stored under a key: the own property, and for \<^verbatim>\<open>__proto__\<close> the prototype
  that the assignment installed; it is what \<^verbatim>\<open>o[k]\<close> reads for a key that an assignment
  of the loop has stored.  \<open>None\<close>: the loop has stored nothing under the key.
\<close>

definition entry_for :: "table \<Rightarrow> string \<Rightarrow> entry option" where
  "entry_for tbl k = (if k = ''__proto__'' then prototype tbl else map_of (props tbl) k)"

text \<open>
  The body of the callback of \<^verbatim>\<open>forEach\<close>:
  \<^verbatim>\<open>formattedMappings[mapping.zoroField] = {direct: mapping.direct || '', formula: mapping.formula || ''}\<close>.
  Each of the three reads throws when the mapping is \<^verbatim>\<open>null\<close>, and so may the conversion of
  the key; every exception here is a TypeError, so the order of the steps does not show.
\<close>

definition store_mapping :: "table \<Rightarrow> jsval \<Rightarrow> error + table" where
  "store_mapping formattedMappings mapping =
     (case get_member mapping ''zoroField'' of
        Inl e \<Rightarrow> Inl e
      | Inr z \<Rightarrow>
     (case get_member mapping ''direct'' of
        Inl e \<Rightarrow> Inl e
      | Inr d \<Rightarrow>
     (case get_member mapping ''formula'' of
        Inl e \<Rightarrow> Inl e
      | Inr f \<Rightarrow>
     (case to_property_key z of
        Inl e \<Rightarrow> Inl e
      | Inr k \<Rightarrow>
          Inr (set_property formattedMappings k
                 \<lparr>direct = js_or d (JStr ''''), formula = js_or f (JStr '''')\<rparr>)))))"

text \<open>
  The loop \<^verbatim>\<open>rule.mappings.forEach(mapping => ...)\<close> over the elements of an array, from
  the table built so far; an exception ends it.
\<close>

fun forEach_mapping :: "table \<Rightarrow> jsval list \<Rightarrow> error + table" where
  "forEach_mapping formattedMappings [] = Inr formattedMappings"
| "forEach_mapping formattedMappings (mapping # rest) =
     (case store_mapping formattedMappings mapping of
        Inl e \<Rightarrow> Inl e
      | Inr formattedMappings' \<Rightarrow> forEach_mapping formattedMappings' rest)"

text \<open>
  The callback of \<^verbatim>\<open>mappingRules.map\<close>.  Only an array has a callable \<^verbatim>\<open>forEach\<close>: on
  \<^verbatim>\<open>undefined\<close> and \<^verbatim>\<open>null\<close> the property read throws, on any other value the call of a
  non-function does.
\<close>

definition format_rule :: "rule \<Rightarrow> error + table" where
  "format_rule r =
     (case mappings r of
        JArr ms \<Rightarrow> forEach_mapping empty_table ms
      | _ \<Rightarrow> Inl TypeError)"

text \<open>\<^verbatim>\<open>getFinalMappingStructure\<close>, returning its result and the agent it leaves.\<close>

definition getFinalMappingStructure :: "agent \<Rightarrow> (error + table list) \<times> agent" where
  "getFinalMappingStructure this =
     (collect_results (map format_rule (mappingRules this)), this)"

section \<open>Notions used in the statements\<close>

text \<open>
  The key the loop stores a suggestion under, and the entry it stores: \<open>store_mapping\<close>
  in two parts (lemma \<open>store_mapping_eq\<close>).  \<open>member_value\<close> is the value read from a
  mapping that is neither \<^verbatim>\<open>null\<close> nor \<^verbatim>\<open>undefined\<close>.
\<close>

definition key_of :: "jsval \<Rightarrow> error + string" where
  "key_of mapping =
     (case get_member mapping ''zoroField'' of Inl e \<Rightarrow> Inl e | Inr z \<Rightarrow> to_property_key z)"

definition member_value :: "jsval \<Rightarrow> string \<Rightarrow> jsval" where
  "member_value mapping name =
     (case get_member mapping name of Inl e \<Rightarrow> JUndefined | Inr v \<Rightarrow> v)"

definition entry_of :: "jsval \<Rightarrow> entry" where
  "entry_of mapping =
     \<lparr>direct = js_or (member_value mapping ''direct'') (JStr ''''),
      formula = js_or (member_value mapping ''formula'') (JStr '''')\<rparr>"

text \<open>A suggestion the loop can store, and a rule whose loop runs to its end.\<close>

definition readable :: "jsval \<Rightarrow> bool" where
  "readable mapping = (case key_of mapping of Inl e \<Rightarrow> False | Inr k \<Rightarrow> True)"

definition well_formed :: "rule \<Rightarrow> bool" where
  "well_formed r = (case mappings r of JArr ms \<Rightarrow> list_all readable ms | _ \<Rightarrow> False)"

text \<open>The latest suggestion of a list that names the key \<open>k\<close>.\<close>

definition last_named :: "string \<Rightarrow> jsval list \<Rightarrow> jsval option" where
  "last_named k ms = find (\<lambda>m. key_of m = Inr k) (rev ms)"

fun is_string :: "jsval \<Rightarrow> bool" where
  "is_string (JStr s) = True"
| "is_string v = False"

text \<open>The request that \<open>processAllSupplierFiles\<close> sends.\<close>

definition supplier_request :: request where
  "supplier_request =
     build_request (createMappingPrompt (zoroFields (loadZoroFields new_agent)) loadSupplierFields)"

section \<open>Sample oracles and responses\<close>

text \<open>
  An oracle that answers every request with one choice holding the given text, and one
  whose call throws.
\<close>

definition oracle_replying :: "string \<Rightarrow> request \<Rightarrow> error + response" where
  "oracle_replying text req = Inr \<lparr>choices = [\<lparr>message = \<lparr>content = Some text\<rparr>\<rparr>]\<rparr>"

definition oracle_failing :: "error \<Rightarrow> request \<Rightarrow> error + response" where
  "oracle_failing e req = Inl e"

definition empty_world :: world where
  "empty_world = \<lparr>oracle_calls = [], console = []\<rparr>"

text \<open>
  Two response texts, and what \<^verbatim>\<open>JSON.parse\<close> returns on the texts of the examples below;
  any other text of the examples (\<^verbatim>\<open>not json\<close>) is not JSON, and \<^verbatim>\<open>JSON.parse\<close> throws a
  SyntaxError on it.
\<close>

definition price_text :: string where
  \<open>price_text = ''{"mappings":[{"zoroField":"price","direct":"PRICE","formula":""}]}''\<close>

definition wrong_shape_text :: string where
  \<open>wrong_shape_text = ''{"mappings":[{"foo":"bar"}]}''\<close>

definition sample_parse :: "string \<Rightarrow> error + jsval" where
  "sample_parse text =
     (if text = price_text then
        Inr (JObj [(''mappings'',
               JArr [JObj [(''zoroField'', JStr ''price''), (''direct'', JStr ''PRICE''),
                           (''formula'', JStr [])]])])
      else if text = wrong_shape_text then
        Inr (JObj [(''mappings'', JArr [JObj [(''foo'', JStr ''bar'')]])])
      else if text = ''{}'' then
        Inr (JObj [])
      else Inl SyntaxError)"

text \<open>The agent after one invocation answered with \<open>price_text\<close>.\<close>

definition agent_after_price :: agent where
  "agent_after_price =
     fst (snd (processAllSupplierFiles (oracle_replying price_text) sample_parse
                 new_agent empty_world))"

section \<open>Lemmas on the loop and on the results\<close>

lemma store_mapping_eq:
  "store_mapping fm m =
     (case key_of m of Inl e \<Rightarrow> Inl e | Inr k \<Rightarrow> Inr (set_property fm k (entry_of m)))"
  by (cases m) (simp_all add: store_mapping_def key_of_def entry_of_def member_value_def split: sum.splits)

lemma forEach_mapping_Cons:
  "forEach_mapping fm (m # ms) =
     (case key_of m of Inl e \<Rightarrow> Inl e
      | Inr k \<Rightarrow> forEach_mapping (set_property fm k (entry_of m)) ms)"
  by (simp add: forEach_mapping.simps(2) store_mapping_eq split: sum.splits)

declare forEach_mapping.simps(2) [simp del]

lemma collect_results_Inl:
  "collect_results rs = Inl e \<Longrightarrow> Inl e \<in> set rs"
  by (induction rs rule: collect_results.induct) (auto split: sum.splits)

lemma collect_results_Cons_Inr:
  "collect_results (r # rs) = Inr ys \<longleftrightarrow>
     (\<exists>y zs. ys = y # zs \<and> r = Inr y \<and> collect_results rs = Inr zs)"
  by (cases r) (auto split: sum.splits)

lemma collect_results_Inr:
  "collect_results (map f xs) = Inr ys \<longleftrightarrow> list_all2 (\<lambda>x y. f x = Inr y) xs ys"
proof (induction xs arbitrary: ys)
  case Nil
  then show ?case by auto
next
  case (Cons x xs)
  have "collect_results (map f (x # xs)) = Inr ys \<longleftrightarrow>
          (\<exists>y zs. ys = y # zs \<and> f x = Inr y \<and> collect_results (map f xs) = Inr zs)"
    by (simp only: list.map collect_results_Cons_Inr)
  also have "\<dots> \<longleftrightarrow> (\<exists>y zs. ys = y # zs \<and> f x = Inr y \<and> list_all2 (\<lambda>x y. f x = Inr y) xs zs)"
    by (simp only: Cons.IH)
  also have "\<dots> \<longleftrightarrow> list_all2 (\<lambda>x y. f x = Inr y) (x # xs) ys"
    by (auto simp: list_all2_Cons1)
  finally show ?case .
qed

lemma find_append_option:
  "find P (xs @ ys) = (case find P xs of None \<Rightarrow> find P ys | Some x \<Rightarrow> Some x)"
  by (induction xs) auto

lemma to_property_key_error:
  "to_property_key v = Inl e \<Longrightarrow> e = TypeError"
proof (induction v rule: to_property_key.induct)
  case (6 xs)
  then show ?case
    by (auto split: sum.splits if_splits dest!: collect_results_Inl)
qed (auto split: if_splits)

lemma get_member_error: "get_member v n = Inl e \<Longrightarrow> e = TypeError"
  by (cases v) auto

lemma key_of_error: "key_of m = Inl e \<Longrightarrow> e = TypeError"
  by (auto simp: key_of_def split: sum.splits dest: to_property_key_error get_member_error)

lemma forEach_mapping_error:
  "forEach_mapping fm ms = Inl e \<Longrightarrow> e = TypeError"
  by (induction ms arbitrary: fm) (auto simp: forEach_mapping_Cons split: sum.splits dest: key_of_error)

lemma forEach_mapping_total:
  "(\<exists>tbl. forEach_mapping fm ms = Inr tbl) \<longleftrightarrow> list_all readable ms"
  by (induction ms arbitrary: fm) (auto simp: forEach_mapping_Cons readable_def split: sum.splits)

lemma set_property_keys:
  "fst ` set (props (set_property fm k v)) =
     (if k = ''__proto__'' then fst ` set (props fm) else insert k (fst ` set (props fm)))"
  by (simp add: set_property_def dom_update[unfolded dom_map_of_conv_image_fst])

lemma forEach_mapping_keys:
  "forEach_mapping fm ms = Inr tbl \<Longrightarrow>
   fst ` set (props tbl) =
     fst ` set (props fm) \<union> {k. k \<noteq> ''__proto__'' \<and> (\<exists>m\<in>set ms. key_of m = Inr k)}"
proof (induction ms arbitrary: fm)
  case Nil
  then show ?case by auto
next
  case (Cons m ms)
  from Cons.prems obtain k where k: "key_of m = Inr k"
    and r: "forEach_mapping (set_property fm k (entry_of m)) ms = Inr tbl"
    by (auto simp: forEach_mapping_Cons split: sum.splits)
  show ?case
    using Cons.IH[OF r] k by (auto simp: set_property_keys split: if_splits)
qed

lemma set_property_distinct:
  "distinct (map fst (props fm)) \<Longrightarrow> distinct (map fst (props (set_property fm k v)))"
  by (simp add: set_property_def distinct_update)

lemma forEach_mapping_distinct:
  "forEach_mapping fm ms = Inr tbl \<Longrightarrow> distinct (map fst (props fm)) \<Longrightarrow>
   distinct (map fst (props tbl))"
  by (induction ms arbitrary: fm)
     (auto simp: forEach_mapping_Cons set_property_distinct split: sum.splits)

lemma entry_for_set_property:
  "entry_for (set_property fm k v) k' = (if k = k' then Some v else entry_for fm k')"
  by (simp add: set_property_def entry_for_def update_conv')

lemma last_named_Cons:
  "last_named k (m # ms) =
     (case last_named k ms of Some x \<Rightarrow> Some x
      | None \<Rightarrow> if key_of m = Inr k then Some m else None)"
  by (simp add: last_named_def find_append_option split: option.splits)

lemma forEach_mapping_lookup:
  "forEach_mapping fm ms = Inr tbl \<Longrightarrow>
   entry_for tbl k =
     (case last_named k ms of None \<Rightarrow> entry_for fm k | Some m \<Rightarrow> Some (entry_of m))"
proof (induction ms arbitrary: fm)
  case Nil
  then show ?case by (simp add: last_named_def)
next
  case (Cons m ms)
  from Cons.prems obtain k0 where k0: "key_of m = Inr k0"
    and r: "forEach_mapping (set_property fm k0 (entry_of m)) ms = Inr tbl"
    by (auto simp: forEach_mapping_Cons split: sum.splits)
  show ?case
    using Cons.IH[OF r] k0
    by (auto simp: last_named_Cons entry_for_set_property split: option.splits)
qed

lemma find_Some_member:
  "find P xs = Some x \<Longrightarrow> x \<in> set xs \<and> P x"
  by (induction xs) (auto split: if_splits)

lemma last_named_None:
  "last_named k ms = None \<longleftrightarrow> (\<forall>m\<in>set ms. key_of m \<noteq> Inr k)"
  by (auto simp: last_named_def find_None_iff)

lemma last_named_Some:
  "last_named k ms = Some m \<Longrightarrow> m \<in> set ms \<and> key_of m = Inr k"
  using find_Some_member[of "\<lambda>m. key_of m = Inr k" "rev ms" m]
  by (simp add: last_named_def)

lemma last_named_append:
  "last_named k (xs @ ys) =
     (case last_named k ys of Some x \<Rightarrow> Some x | None \<Rightarrow> last_named k xs)"
  by (simp add: last_named_def find_append_option split: option.splits)

lemma last_named_latest:
  assumes "key_of m = Inr k" and "\<forall>m'\<in>set later. key_of m' \<noteq> Inr k"
  shows "last_named k (earlier @ m # later) = Some m"
proof -
  have "last_named k later = None"
    using assms(2) by (simp add: last_named_None)
  then have "last_named k (m # later) = Some m"
    using assms(1) by (simp add: last_named_Cons)
  then show ?thesis
    by (simp add: last_named_append)
qed

lemma getFinal_Inr:
  "fst (getFinalMappingStructure this) = Inr tbls \<longleftrightarrow>
     list_all2 (\<lambda>r tbl. format_rule r = Inr tbl) (mappingRules this) tbls"
  by (simp add: getFinalMappingStructure_def collect_results_Inr)

lemma format_rule_Inr:
  "format_rule r = Inr tbl \<longleftrightarrow> (\<exists>ms. mappings r = JArr ms \<and> forEach_mapping empty_table ms = Inr tbl)"
  by (auto simp: format_rule_def split: jsval.splits)

lemma format_rule_total:
  "(\<exists>tbl. format_rule r = Inr tbl) \<longleftrightarrow> well_formed r"
  by (auto simp: format_rule_def well_formed_def forEach_mapping_total split: jsval.splits)

lemma format_rule_error: "format_rule r = Inl e \<Longrightarrow> e = TypeError"
  by (auto simp: format_rule_def split: jsval.splits dest: forEach_mapping_error)

lemma getFinal_total:
  assumes wf: "list_all well_formed (mappingRules this)"
  shows "\<exists>tbls. fst (getFinalMappingStructure this) = Inr tbls"
proof -
  have "\<exists>tbls. list_all2 (\<lambda>r tbl. format_rule r = Inr tbl) rs tbls"
    if "list_all well_formed rs" for rs
    using that
  proof (induction rs)
    case Nil
    then show ?case by simp
  next
    case (Cons r rs)
    then obtain tbls where "list_all2 (\<lambda>r tbl. format_rule r = Inr tbl) rs tbls" by auto
    moreover from Cons.prems obtain t where "format_rule r = Inr t"
      using format_rule_total[of r] by auto
    ultimately have "list_all2 (\<lambda>r tbl. format_rule r = Inr tbl) (r # rs) (t # tbls)" by simp
    then show ?case by blast
  qed
  with wf show ?thesis by (simp add: getFinal_Inr)
qed

lemma getFinal_nth:
  assumes "fst (getFinalMappingStructure this) = Inr tbls"
  shows "length tbls = length (mappingRules this)"
    and "i < length tbls \<Longrightarrow> format_rule (mappingRules this ! i) = Inr (tbls ! i)"
  using assms by (auto simp: getFinal_Inr list_all2_conv_all_nth)

lemmas eval_defs = getFinalMappingStructure_def format_rule_def forEach_mapping.simps
  store_mapping_def set_property_def empty_table_def key_of_def entry_of_def member_value_def
  js_or_def entry_for_def well_formed_def readable_def

section \<open>The claims\<close>

text \<open>
  C8.  An invocation of \<open>generateMappingSuggestions\<close> sends exactly one request to the
  oracle, whether it returns suggestions or throws: the calls recorded afterwards are those
  recorded before, followed by the one request built from the two field lists.
\<close>

theorem generateMappingSuggestions_one_oracle_call:
  "oracle_calls (snd (generateMappingSuggestions oracle JSON_parse zs ss w)) =
     oracle_calls w @ [build_request (createMappingPrompt zs ss)]"
  by (simp add: generateMappingSuggestions_def Let_def split: sum.splits)

text \<open>
  C9.  \<open>getFinalMappingStructure\<close> is a read-only query: it leaves the agent, and so the
  stored mapping rules, as they were, and a second call right after the first returns an
  equal result.
\<close>

theorem getFinalMappingStructure_read_only:
  "snd (getFinalMappingStructure this) = this \<and>
   mappingRules (snd (getFinalMappingStructure this)) = mappingRules this \<and>
   fst (getFinalMappingStructure (snd (getFinalMappingStructure this))) =
     fst (getFinalMappingStructure this)"
  by (simp add: getFinalMappingStructure_def)

text \<open>
  C5.  Last write wins.  When the stored rules can all be formatted and \<open>m\<close> is the latest
  suggestion of rule \<open>i\<close> that names the field \<open>k\<close> (no suggestion after it names \<open>k\<close>),
  the entry of table \<open>i\<close> for \<open>k\<close> is the entry that \<open>m\<close> alone is normalised to, whatever
  the suggestions before it say.  The witness is the example of the specification: the
  suggestions \<^verbatim>\<open>[{price, direct A}, {price, direct B}]\<close> give \<^verbatim>\<open>{price: {direct: B, formula: ""}}\<close>.
\<close>

theorem last_write_wins:
  assumes wf: "list_all well_formed (mappingRules this)"
    and i: "i < length (mappingRules this)"
    and ms: "mappings (mappingRules this ! i) = JArr (earlier @ m # later)"
    and k: "key_of m = Inr k"
    and later: "\<forall>m'\<in>set later. key_of m' \<noteq> Inr k"
  shows "\<exists>tbls t. fst (getFinalMappingStructure this) = Inr tbls \<and>
           length tbls = length (mappingRules this) \<and>
           forEach_mapping empty_table [m] = Inr t \<and>
           entry_for (tbls ! i) k = entry_for t k \<and>
           entry_for t k = Some (entry_of m)"
proof -
  from getFinal_total[OF wf] obtain tbls
    where tbls: "fst (getFinalMappingStructure this) = Inr tbls" by blast
  have len: "length tbls = length (mappingRules this)"
    using getFinal_nth(1)[OF tbls] .
  with i have "format_rule (mappingRules this ! i) = Inr (tbls ! i)"
    using getFinal_nth(2)[OF tbls] by simp
  with ms have run: "forEach_mapping empty_table (earlier @ m # later) = Inr (tbls ! i)"
    by (simp add: format_rule_Inr)
  have "entry_for (tbls ! i) k = Some (entry_of m)"
    using forEach_mapping_lookup[OF run, of k] last_named_latest[OF k later, of earlier]
    by simp
  moreover have "forEach_mapping empty_table [m] = Inr (set_property empty_table k (entry_of m))"
    using k by (simp add: forEach_mapping_Cons)
  moreover have "entry_for (set_property empty_table k (entry_of m)) k = Some (entry_of m)"
    by (simp add: entry_for_set_property)
  ultimately show ?thesis using tbls len by simp
qed

theorem last_write_wins_witness:
  "fst (getFinalMappingStructure
         \<lparr>zoroFields = [''price''],
          mappingRules = [\<lparr>supplierFile = [], mappings =
             JArr [JObj [(''zoroField'', JStr ''price''), (''direct'', JStr ''A'')],
                   JObj [(''zoroField'', JStr ''price''), (''direct'', JStr ''B'')]]\<rparr>]\<rparr>) =
     Inr [\<lparr>props = [(''price'', \<lparr>direct = JStr ''B'', formula = JStr []\<rparr>)],
           prototype = None\<rparr>]"
proof -
  let ?a = "JObj [(''zoroField'', JStr ''price''), (''direct'', JStr ''A'')]"
  let ?b = "JObj [(''zoroField'', JStr ''price''), (''direct'', JStr ''B'')]"
  let ?ag = "\<lparr>zoroFields = [''price''],
          mappingRules = [\<lparr>supplierFile = [], mappings = JArr [?a, ?b]\<rparr>]\<rparr>"
  have h1: "list_all well_formed (mappingRules ?ag)"
    by (simp add: well_formed_def readable_def key_of_def)
  have h2: "0 < length (mappingRules ?ag)" by simp
  have h3: "mappings (mappingRules ?ag ! 0) = JArr ([?a] @ ?b # [])" by simp
  have h4: "key_of ?b = Inr ''price''" by (simp add: key_of_def)
  have h5: "\<forall>m'\<in>set []. key_of m' \<noteq> Inr ''price''" by simp
  from last_write_wins[OF h1 h2 h3 h4 h5]
  show ?thesis by (simp add: eval_defs)
qed

text \<open>
  C1.  What holds in place of the stated guarantee.  \<open>getFinalMappingStructure\<close> builds
  each table from the suggestions alone and adds no default entry.  When the stored rules
  can all be formatted, table \<open>i\<close> has exactly one own entry for each distinct field named
  by a suggestion of rule \<open>i\<close> (the key \<^verbatim>\<open>__proto__\<close> apart, which sets the prototype), and
  a target field that no suggestion names has no entry.  An entry is a record
  \<^verbatim>\<open>{direct, formula}\<close>, never \<^verbatim>\<open>null\<close>.
\<close>

theorem one_entry_per_named_field:
  assumes wf: "list_all well_formed (mappingRules this)"
    and i: "i < length (mappingRules this)"
    and ms: "mappings (mappingRules this ! i) = JArr ms"
  shows "\<exists>tbls. fst (getFinalMappingStructure this) = Inr tbls \<and>
           length tbls = length (mappingRules this) \<and>
           distinct (map fst (props (tbls ! i))) \<and>
           set (map fst (props (tbls ! i))) =
             {k. k \<noteq> ''__proto__'' \<and> (\<exists>m\<in>set ms. key_of m = Inr k)} \<and>
           (\<forall>z\<in>set (zoroFields this).
              (\<forall>m\<in>set ms. key_of m \<noteq> Inr z) \<longrightarrow> entry_for (tbls ! i) z = None)"
proof -
  from getFinal_total[OF wf] obtain tbls
    where tbls: "fst (getFinalMappingStructure this) = Inr tbls" by blast
  have len: "length tbls = length (mappingRules this)"
    using getFinal_nth(1)[OF tbls] .
  with i have "format_rule (mappingRules this ! i) = Inr (tbls ! i)"
    using getFinal_nth(2)[OF tbls] by simp
  with ms have run: "forEach_mapping empty_table ms = Inr (tbls ! i)"
    by (simp add: format_rule_Inr)
  have d: "distinct (map fst (props (tbls ! i)))"
    using forEach_mapping_distinct[OF run] by (simp add: empty_table_def)
  have s: "set (map fst (props (tbls ! i))) =
             {k. k \<noteq> ''__proto__'' \<and> (\<exists>m\<in>set ms. key_of m = Inr k)}"
    using forEach_mapping_keys[OF run] by (simp add: empty_table_def)
  have n: "entry_for (tbls ! i) z = None" if "\<forall>m\<in>set ms. key_of m \<noteq> Inr z" for z
  proof -
    from that have "last_named z ms = None" by (simp add: last_named_None)
    then show ?thesis
      using forEach_mapping_lookup[OF run, of z] by (simp add: entry_for_def empty_table_def)
  qed
  from tbls len d s n show ?thesis by blast
qed

theorem one_entry_per_named_field_witness:
  "fst (getFinalMappingStructure
         \<lparr>zoroFields = [''price'', ''quantity''],
          mappingRules = [\<lparr>supplierFile = [], mappings =
             JArr [JObj [(''zoroField'', JStr ''price''), (''direct'', JStr ''COST'')]]\<rparr>]\<rparr>) =
     Inr [\<lparr>props = [(''price'', \<lparr>direct = JStr ''COST'', formula = JStr []\<rparr>)],
           prototype = None\<rparr>] \<and>
   entry_for \<lparr>props = [(''price'', \<lparr>direct = JStr ''COST'', formula = JStr []\<rparr>)],
           prototype = None\<rparr> ''quantity'' = None"
proof -
  let ?m = "JObj [(''zoroField'', JStr ''price''), (''direct'', JStr ''COST'')]"
  let ?ag = "\<lparr>zoroFields = [''price'', ''quantity''],
          mappingRules = [\<lparr>supplierFile = [], mappings = JArr [?m]\<rparr>]\<rparr>"
  have h1: "list_all well_formed (mappingRules ?ag)"
    by (simp add: well_formed_def readable_def key_of_def)
  have h2: "0 < length (mappingRules ?ag)" by simp
  have h3: "mappings (mappingRules ?ag ! 0) = JArr [?m]" by simp
  from one_entry_per_named_field[OF h1 h2 h3]
  show ?thesis by (simp add: eval_defs)
qed

text \<open>
  C1 as stated fails: with the target fields \<^verbatim>\<open>["price"]\<close> and the empty suggestion list
  the table is \<^verbatim>\<open>{}\<close>, not \<^verbatim>\<open>{price: {direct: "", formula: ""}}\<close>.
\<close>

theorem no_default_entries_counterexample:
  "zoroFields \<lparr>zoroFields = [''price''],
      mappingRules = [\<lparr>supplierFile = [], mappings = JArr []\<rparr>]\<rparr> \<noteq> [] \<and>
   fst (getFinalMappingStructure
         \<lparr>zoroFields = [''price''],
          mappingRules = [\<lparr>supplierFile = [], mappings = JArr []\<rparr>]\<rparr>) =
     Inr [\<lparr>props = [], prototype = None\<rparr>] \<and>
   fst (getFinalMappingStructure
         \<lparr>zoroFields = [''price''],
          mappingRules = [\<lparr>supplierFile = [], mappings = JArr []\<rparr>]\<rparr>) \<noteq>
     Inr [\<lparr>props = [(''price'', \<lparr>direct = JStr [], formula = JStr []\<rparr>)], prototype = None\<rparr>]"
  by (simp add: eval_defs)

text \<open>
  C2.  What holds in place of the stated filter.  Every own key of a table is the field
  named by a suggestion of its rule, and no suggestion is dropped: for every suggestion
  the table holds an entry under the field it names, the entry of a suggestion naming
  that field, whether or not the field is a target field.  The result is the same for
  every target field list, and the agent, which has no counter of discarded entries, is
  left as it was.
\<close>

theorem suggestions_kept_whatever_the_target_fields:
  assumes tbls: "fst (getFinalMappingStructure this) = Inr tbls"
    and i: "i < length tbls"
  shows "\<exists>ms. mappings (mappingRules this ! i) = JArr ms \<and>
           (\<forall>k\<in>set (map fst (props (tbls ! i))). \<exists>m\<in>set ms. key_of m = Inr k) \<and>
           (\<forall>m\<in>set ms. \<exists>k m'. key_of m = Inr k \<and> m' \<in> set ms \<and> key_of m' = Inr k \<and>
                            entry_for (tbls ! i) k = Some (entry_of m')) \<and>
           fst (getFinalMappingStructure (this\<lparr>zoroFields := zs\<rparr>)) = Inr tbls \<and>
           snd (getFinalMappingStructure this) = this"
proof -
  from getFinal_nth(2)[OF tbls i] obtain ms
    where ms: "mappings (mappingRules this ! i) = JArr ms"
      and run: "forEach_mapping empty_table ms = Inr (tbls ! i)"
    by (auto simp: format_rule_Inr)
  have a: "\<exists>m\<in>set ms. key_of m = Inr k" if "k \<in> set (map fst (props (tbls ! i)))" for k
    using that forEach_mapping_keys[OF run] by (auto simp: empty_table_def)
  have b: "\<exists>k m'. key_of m = Inr k \<and> m' \<in> set ms \<and> key_of m' = Inr k \<and>
                   entry_for (tbls ! i) k = Some (entry_of m')" if m: "m \<in> set ms" for m
  proof -
    from run have "list_all readable ms"
      using forEach_mapping_total[of empty_table ms] by auto
    with m obtain k where k: "key_of m = Inr k"
      by (cases "key_of m") (auto simp: list_all_iff readable_def)
    with m have "last_named k ms \<noteq> None" by (auto simp: last_named_None)
    then obtain m' where m': "last_named k ms = Some m'" by auto
    then have "entry_for (tbls ! i) k = Some (entry_of m')"
      using forEach_mapping_lookup[OF run, of k] by simp
    with k last_named_Some[OF m'] show ?thesis by blast
  qed
  have c: "fst (getFinalMappingStructure (this\<lparr>zoroFields := zs\<rparr>)) = Inr tbls"
    using tbls by (simp add: getFinalMappingStructure_def)
  have d: "snd (getFinalMappingStructure this) = this"
    by (simp add: getFinalMappingStructure_def)
  from ms a b c d show ?thesis by blast
qed

theorem suggestions_kept_witness:
  "fst (getFinalMappingStructure
         \<lparr>zoroFields = [''price''],
          mappingRules = [\<lparr>supplierFile = [], mappings =
             JArr [JObj [(''zoroField'', JStr ''colour''), (''formula'', JStr ''shade'')]]\<rparr>]\<rparr>) =
     Inr [\<lparr>props = [(''colour'', \<lparr>direct = JStr [], formula = JStr ''shade''\<rparr>)],
           prototype = None\<rparr>] \<and>
   fst (getFinalMappingStructure
         \<lparr>zoroFields = [],
          mappingRules = [\<lparr>supplierFile = [], mappings =
             JArr [JObj [(''zoroField'', JStr ''colour''), (''formula'', JStr ''shade'')]]\<rparr>]\<rparr>) =
     Inr [\<lparr>props = [(''colour'', \<lparr>direct = JStr [], formula = JStr ''shade''\<rparr>)],
           prototype = None\<rparr>]"
proof -
  let ?m = "JObj [(''zoroField'', JStr ''colour''), (''formula'', JStr ''shade'')]"
  let ?ag = "\<lparr>zoroFields = [''price''],
          mappingRules = [\<lparr>supplierFile = [], mappings = JArr [?m]\<rparr>]\<rparr>"
  let ?t = "\<lparr>props = [(''colour'', \<lparr>direct = JStr [], formula = JStr ''shade''\<rparr>)],
           prototype = None\<rparr>"
  have h1: "fst (getFinalMappingStructure ?ag) = Inr [?t]" by (simp add: eval_defs)
  have h2: "0 < length [?t]" by simp
  from suggestions_kept_whatever_the_target_fields[OF h1 h2, of "[]"] h1
  show ?thesis by simp
qed

text \<open>
  C2 as stated fails: with the target fields \<^verbatim>\<open>["price"]\<close>, the suggestion
  \<^verbatim>\<open>{zoroField: "unknown_field", direct: "X"}\<close> is stored under \<^verbatim>\<open>unknown_field\<close>.
\<close>

theorem unknown_field_kept_counterexample:
  "fst (getFinalMappingStructure
         \<lparr>zoroFields = [''price''],
          mappingRules = [\<lparr>supplierFile = [], mappings =
             JArr [JObj [(''zoroField'', JStr ''unknown_field''), (''direct'', JStr ''X'')]]\<rparr>]\<rparr>) =
     Inr [\<lparr>props = [(''unknown_field'', \<lparr>direct = JStr ''X'', formula = JStr []\<rparr>)],
           prototype = None\<rparr>] \<and>
   ''unknown_field'' \<notin> set [''price'']"
  by (simp add: eval_defs)

lemma collect_results_cases:
  "(\<exists>e. collect_results rs = Inl e) \<or> (\<exists>xs. collect_results rs = Inr xs)"
  by (cases "collect_results rs") auto

lemma getFinal_error:
  "fst (getFinalMappingStructure this) = Inl e \<Longrightarrow> e = TypeError"
  by (auto simp: getFinalMappingStructure_def dest!: collect_results_Inl format_rule_error[OF sym])

lemma getFinal_fails_iff:
  "(\<exists>e. fst (getFinalMappingStructure this) = Inl e) \<longleftrightarrow>
     \<not> list_all well_formed (mappingRules this)"
proof
  assume "\<exists>e. fst (getFinalMappingStructure this) = Inl e"
  then show "\<not> list_all well_formed (mappingRules this)"
    using getFinal_total[of this] by auto
next
  assume nwf: "\<not> list_all well_formed (mappingRules this)"
  show "\<exists>e. fst (getFinalMappingStructure this) = Inl e"
  proof (cases "fst (getFinalMappingStructure this)")
    case (Inl e)
    then show ?thesis by blast
  next
    case (Inr tbls)
    then have "list_all2 (\<lambda>r tbl. format_rule r = Inr tbl) (mappingRules this) tbls"
      by (simp add: getFinal_Inr)
    then have "\<forall>r\<in>set (mappingRules this). \<exists>tbl. format_rule r = Inr tbl"
      by (auto simp: list_all2_conv_all_nth in_set_conv_nth)
    then have "list_all well_formed (mappingRules this)"
      by (simp add: list_all_iff format_rule_total)
    with nwf show ?thesis by simp
  qed
qed

text \<open>
  C7.  What holds in place of the stated schema check.  \<open>getFinalMappingStructure\<close> never
  reads the target field list: its result is the same for every list, the empty one
  included.  It fails exactly when a stored rule cannot be formatted (its \<^verbatim>\<open>mappings\<close> is
  not an array, or an element is \<^verbatim>\<open>null\<close> or names a field that has no key), and the
  failure is then a TypeError.
\<close>

theorem target_fields_never_checked:
  "fst (getFinalMappingStructure (this\<lparr>zoroFields := zs\<rparr>)) =
     fst (getFinalMappingStructure this) \<and>
   ((\<exists>e. fst (getFinalMappingStructure this) = Inl e) \<longleftrightarrow>
      \<not> list_all well_formed (mappingRules this)) \<and>
   (\<forall>e. fst (getFinalMappingStructure this) = Inl e \<longrightarrow> e = TypeError)"
  using getFinal_fails_iff[of this] getFinal_error[of this]
  by (simp add: getFinalMappingStructure_def)

theorem target_fields_never_checked_witness:
  "fst (getFinalMappingStructure
         \<lparr>zoroFields = [''price''],
          mappingRules = [\<lparr>supplierFile = [], mappings = JUndefined\<rparr>]\<rparr>) = Inl TypeError \<and>
   fst (getFinalMappingStructure
         \<lparr>zoroFields = [],
          mappingRules = [\<lparr>supplierFile = [], mappings = JUndefined\<rparr>]\<rparr>) = Inl TypeError \<and>
   \<not> list_all well_formed [\<lparr>supplierFile = [], mappings = JUndefined\<rparr>]"
  using target_fields_never_checked
          [where this = "\<lparr>zoroFields = [''price''],
                mappingRules = [\<lparr>supplierFile = [], mappings = JUndefined\<rparr>]\<rparr>"
             and zs = "[]"]
  by (simp add: eval_defs)

text \<open>
  C7 as stated fails: with the empty target field list the constructor's agent returns
  \<^verbatim>\<open>[]\<close> and an agent holding an empty suggestion array returns the zero-entry table,
  both without an error; and with the target fields \<^verbatim>\<open>["price"]\<close> a rule whose \<^verbatim>\<open>mappings\<close>
  is \<^verbatim>\<open>undefined\<close> makes the call fail.
\<close>

theorem empty_target_fields_counterexample:
  "zoroFields new_agent = [] \<and>
   fst (getFinalMappingStructure new_agent) = Inr [] \<and>
   fst (getFinalMappingStructure
         \<lparr>zoroFields = [],
          mappingRules = [\<lparr>supplierFile = [], mappings = JArr []\<rparr>]\<rparr>) =
     Inr [\<lparr>props = [], prototype = None\<rparr>] \<and>
   fst (getFinalMappingStructure
         \<lparr>zoroFields = [''price''],
          mappingRules = [\<lparr>supplierFile = [], mappings = JUndefined\<rparr>]\<rparr>) = Inl TypeError"
  by (simp add: eval_defs new_agent_def)

lemma key_of_readable_members:
  "key_of m = Inr k \<Longrightarrow>
   get_member m ''direct'' = Inr (member_value m ''direct'') \<and>
   get_member m ''formula'' = Inr (member_value m ''formula'')"
  by (cases m) (simp_all add: key_of_def member_value_def)

text \<open>
  C10.  What holds in place of the stated typing.  Every entry of a table comes from a
  suggestion \<open>m\<close> of its rule that names the entry's field; its \<^verbatim>\<open>direct\<close> is the suggestion's
  \<^verbatim>\<open>direct\<close> when that is truthy and the empty string when it is missing, \<^verbatim>\<open>null\<close>
  or otherwise falsy, and likewise for \<^verbatim>\<open>formula\<close>.  So a field of the entry is a string
  exactly when the suggestion's value is a string or falsy.
\<close>

theorem falsy_values_become_empty_strings:
  assumes tbls: "fst (getFinalMappingStructure this) = Inr tbls"
    and i: "i < length tbls"
    and e: "entry_for (tbls ! i) k = Some e"
  shows "\<exists>ms m d f. mappings (mappingRules this ! i) = JArr ms \<and> m \<in> set ms \<and>
           key_of m = Inr k \<and>
           get_member m ''direct'' = Inr d \<and> get_member m ''formula'' = Inr f \<and>
           direct e = (if truthy d then d else JStr []) \<and>
           formula e = (if truthy f then f else JStr []) \<and>
           (is_string (direct e) \<longleftrightarrow> is_string d \<or> \<not> truthy d) \<and>
           (is_string (formula e) \<longleftrightarrow> is_string f \<or> \<not> truthy f)"
proof -
  from getFinal_nth(2)[OF tbls i] obtain ms
    where ms: "mappings (mappingRules this ! i) = JArr ms"
      and run: "forEach_mapping empty_table ms = Inr (tbls ! i)"
    by (auto simp: format_rule_Inr)
  have "entry_for empty_table k = None"
    by (simp add: entry_for_def empty_table_def)
  with e forEach_mapping_lookup[OF run, of k] obtain m
    where m: "last_named k ms = Some m" and em: "e = entry_of m"
    by (auto split: option.splits)
  from last_named_Some[OF m] have mem: "m \<in> set ms" and k: "key_of m = Inr k" by auto
  let ?d = "member_value m ''direct''" and ?f = "member_value m ''formula''"
  from key_of_readable_members[OF k]
  have gd: "get_member m ''direct'' = Inr ?d" and gf: "get_member m ''formula'' = Inr ?f"
    by auto
  have de: "direct e = (if truthy ?d then ?d else JStr [])"
    and fe: "formula e = (if truthy ?f then ?f else JStr [])"
    using em by (simp_all add: entry_of_def js_or_def)
  have sd: "is_string (direct e) \<longleftrightarrow> is_string ?d \<or> \<not> truthy ?d"
    using de by simp
  have sf: "is_string (formula e) \<longleftrightarrow> is_string ?f \<or> \<not> truthy ?f"
    using fe by simp
  from ms mem k gd gf de fe sd sf show ?thesis by blast
qed

theorem falsy_values_witness:
  "fst (getFinalMappingStructure
         \<lparr>zoroFields = [''price''],
          mappingRules = [\<lparr>supplierFile = [], mappings =
             JArr [JObj [(''zoroField'', JStr ''price''), (''direct'', JNull),
                         (''formula'', JNum ''0'')]]\<rparr>]\<rparr>) =
     Inr [\<lparr>props = [(''price'', \<lparr>direct = JStr [], formula = JStr []\<rparr>)],
           prototype = None\<rparr>] \<and>
   is_string (direct \<lparr>direct = JStr [], formula = JStr []\<rparr>) \<and>
   is_string (formula \<lparr>direct = JStr [], formula = JStr []\<rparr>)"
proof -
  let ?m = "JObj [(''zoroField'', JStr ''price''), (''direct'', JNull), (''formula'', JNum ''0'')]"
  let ?ag = "\<lparr>zoroFields = [''price''],
          mappingRules = [\<lparr>supplierFile = [], mappings = JArr [?m]\<rparr>]\<rparr>"
  let ?e = "\<lparr>direct = JStr [], formula = JStr []\<rparr>"
  let ?t = "\<lparr>props = [(''price'', ?e)], prototype = None\<rparr>"
  have h1: "fst (getFinalMappingStructure ?ag) = Inr [?t]" by (simp add: eval_defs)
  have h2: "0 < length [?t]" by simp
  have h3: "entry_for ([?t] ! 0) ''price'' = Some ?e" by (simp add: entry_for_def)
  from falsy_values_become_empty_strings[OF h1 h2 h3] h1
  show ?thesis by simp
qed

text \<open>
  C10 as stated fails: the suggestion \<^verbatim>\<open>{zoroField: "price", direct: true}\<close> gives an
  entry whose \<^verbatim>\<open>direct\<close> is \<^verbatim>\<open>true\<close>, not a string.
\<close>

theorem truthy_value_kept_counterexample:
  "fst (getFinalMappingStructure
         \<lparr>zoroFields = [''price''],
          mappingRules = [\<lparr>supplierFile = [], mappings =
             JArr [JObj [(''zoroField'', JStr ''price''), (''direct'', JBool True)]]\<rparr>]\<rparr>) =
     Inr [\<lparr>props = [(''price'', \<lparr>direct = JBool True, formula = JStr []\<rparr>)],
           prototype = None\<rparr>] \<and>
   \<not> is_string (direct \<lparr>direct = JBool True, formula = JStr []\<rparr>)"
  by (simp add: eval_defs)

lemma generate_result:
  "fst (generateMappingSuggestions oracle JSON_parse zs ss w) =
     (case oracle (build_request (createMappingPrompt zs ss)) of
        Inl e \<Rightarrow> Inl e
      | Inr r \<Rightarrow> (case read_content r of Inl e \<Rightarrow> Inl e | Inr text \<Rightarrow> JSON_parse text))"
  by (simp add: generateMappingSuggestions_def Let_def split: sum.splits)

lemma generate_console:
  "console (snd (generateMappingSuggestions oracle JSON_parse zs ss w)) =
     (case fst (generateMappingSuggestions oracle JSON_parse zs ss w) of
        Inl e \<Rightarrow> console w @ [LogError ''Error generating mapping suggestions:'' e]
      | Inr v \<Rightarrow> console w)"
  by (simp add: generateMappingSuggestions_def Let_def split: sum.splits)

lemma process_returns: "fst (processAllSupplierFiles oracle JSON_parse this w) = Inr ()"
  by (simp add: processAllSupplierFiles_def catch_processing_def Let_def
           split: prod.splits sum.splits)

lemma process_agent:
  "fst (snd (processAllSupplierFiles oracle JSON_parse this w)) =
     (case fst (generateMappingSuggestions oracle JSON_parse
                  (zoroFields (loadZoroFields this)) loadSupplierFields w) of
        Inl e \<Rightarrow> loadZoroFields this
      | Inr parsed \<Rightarrow>
          (case get_member parsed ''mappings'' of
             Inl e \<Rightarrow> loadZoroFields this
           | Inr m \<Rightarrow> (loadZoroFields this)\<lparr>mappingRules :=
                         mappingRules this @ [\<lparr>supplierFile = [], mappings = m\<rparr>]\<rparr>))"
  by (simp add: processAllSupplierFiles_def catch_processing_def Let_def loadZoroFields_def
           split: prod.splits sum.splits)

lemma process_console:
  "console (snd (snd (processAllSupplierFiles oracle JSON_parse this w))) =
     (case fst (generateMappingSuggestions oracle JSON_parse
                  (zoroFields (loadZoroFields this)) loadSupplierFields w) of
        Inl e \<Rightarrow> console w @ [LogError ''Error generating mapping suggestions:'' e,
                               LogError ''Error processing'' e]
      | Inr parsed \<Rightarrow>
          (case get_member parsed ''mappings'' of
             Inl e \<Rightarrow> console w @ [LogError ''Error processing'' e]
           | Inr m \<Rightarrow> console w @ [LogText ''Generated mappings'', LogJson parsed]))"
proof -
  obtain res w1 where g: "generateMappingSuggestions oracle JSON_parse
      (zoroFields (loadZoroFields this)) loadSupplierFields w = (res, w1)"
    by (cases "generateMappingSuggestions oracle JSON_parse
      (zoroFields (loadZoroFields this)) loadSupplierFields w") auto
  have c: "console w1 =
     (case res of
        Inl e \<Rightarrow> console w @ [LogError ''Error generating mapping suggestions:'' e]
      | Inr v \<Rightarrow> console w)"
    using generate_console[of "oracle" JSON_parse "zoroFields (loadZoroFields this)"
            loadSupplierFields w] g
    by simp
  show ?thesis
    using c by (simp add: processAllSupplierFiles_def catch_processing_def Let_def g
                     split: sum.splits)
qed

lemma loaded_fields: "zoroFields (loadZoroFields this) = zoroFields (loadZoroFields new_agent)"
  by (simp add: loadZoroFields_def)

lemma loaded_rules: "mappingRules (loadZoroFields this) = mappingRules this"
  by (simp add: loadZoroFields_def)

lemma getFinal_rules_only:
  "mappingRules a = mappingRules b \<Longrightarrow>
   fst (getFinalMappingStructure a) = fst (getFinalMappingStructure b)"
  by (simp add: getFinalMappingStructure_def)

lemma forEach_mapping_keeps:
  assumes run: "forEach_mapping empty_table ms = Inr tbl" and m: "m \<in> set ms"
  shows "\<exists>k m'. key_of m = Inr k \<and> m' \<in> set ms \<and> key_of m' = Inr k \<and>
           entry_for tbl k = Some (entry_of m')"
proof -
  from run have "list_all readable ms"
    using forEach_mapping_total[of empty_table ms] by auto
  with m obtain k where k: "key_of m = Inr k"
    by (cases "key_of m") (auto simp: list_all_iff readable_def)
  with m have "last_named k ms \<noteq> None" by (auto simp: last_named_None)
  then obtain m' where m': "last_named k ms = Some m'" by auto
  then have "entry_for tbl k = Some (entry_of m')"
    using forEach_mapping_lookup[OF run, of k] by simp
  with k last_named_Some[OF m'] show ?thesis by blast
qed

lemma getFinal_fails_on_bad_rule:
  assumes "r \<in> set (mappingRules this)" and "format_rule r = Inl e"
  shows "fst (getFinalMappingStructure this) = Inl TypeError"
proof -
  from assms have "\<not> well_formed r"
    using format_rule_total[of r] by auto
  with assms(1) have "\<not> list_all well_formed (mappingRules this)"
    by (auto simp: list_all_iff)
  then obtain e' where "fst (getFinalMappingStructure this) = Inl e'"
    using getFinal_fails_iff[of this] by blast
  with getFinal_error[of this e'] show ?thesis by simp
qed

text \<open>
  C3.  What holds in place of the stated policy.  \<open>generateMappingSuggestions\<close> returns
  the value parsed from the response, or else throws again the very exception of the step
  that failed: the call of the oracle, the read of the content, or the parsing.
  \<open>getFinalMappingStructure\<close> handles nothing: one stored rule that cannot be formatted
  makes the call fail with a TypeError.  Neither of them discards a suggestion: every
  suggestion of a formatted rule has an entry under the field it names.  The one handler
  that ends a failure is in \<open>processAllSupplierFiles\<close>, the caller of the request: it
  always returns normally, and when the request has failed it stores no rule and prints
  the exception a second time.
\<close>

theorem failures_rethrown_by_the_request_caught_by_processing:
  "fst (generateMappingSuggestions ask JSON_parse zs ss w) =
     (case ask (build_request (createMappingPrompt zs ss)) of
        Inl e \<Rightarrow> Inl e
      | Inr r \<Rightarrow> (case read_content r of Inl e \<Rightarrow> Inl e | Inr text \<Rightarrow> JSON_parse text)) \<and>
   (\<forall>r e. r \<in> set (mappingRules this) \<longrightarrow> format_rule r = Inl e \<longrightarrow>
      fst (getFinalMappingStructure this) = Inl TypeError) \<and>
   (\<forall>ms tbl m. forEach_mapping empty_table ms = Inr tbl \<longrightarrow> m \<in> set ms \<longrightarrow>
      (\<exists>k. key_of m = Inr k \<and> entry_for tbl k \<noteq> None)) \<and>
   fst (processAllSupplierFiles ask JSON_parse this w) = Inr () \<and>
   (\<forall>e. fst (generateMappingSuggestions ask JSON_parse
              (zoroFields (loadZoroFields this)) loadSupplierFields w) = Inl e \<longrightarrow>
      fst (snd (processAllSupplierFiles ask JSON_parse this w)) = loadZoroFields this \<and>
      console (snd (snd (processAllSupplierFiles ask JSON_parse this w))) =
        console w @ [LogError ''Error generating mapping suggestions:'' e,
                     LogError ''Error processing'' e])"
proof -
  have c: "\<exists>k. key_of m = Inr k \<and> entry_for tbl k \<noteq> None"
    if "forEach_mapping empty_table ms = Inr tbl" "m \<in> set ms" for ms tbl m
    using forEach_mapping_keeps[OF that] by auto
  show ?thesis
    using generate_result[of ask JSON_parse zs ss w] getFinal_fails_on_bad_rule[of _ this]
      c process_returns[of ask JSON_parse this w]
    by (auto simp: process_agent process_console)
qed

theorem failures_witness:
  "fst (generateMappingSuggestions (oracle_failing (ApiError ''timeout'')) sample_parse
          (zoroFields (loadZoroFields new_agent)) loadSupplierFields empty_world) =
     Inl (ApiError ''timeout'') \<and>
   fst (snd (processAllSupplierFiles (oracle_failing (ApiError ''timeout'')) sample_parse
               new_agent empty_world)) = loadZoroFields new_agent \<and>
   console (snd (snd (processAllSupplierFiles (oracle_failing (ApiError ''timeout''))
                        sample_parse new_agent empty_world))) =
     [LogError ''Error generating mapping suggestions:'' (ApiError ''timeout''),
      LogError ''Error processing'' (ApiError ''timeout'')] \<and>
   fst (getFinalMappingStructure
         \<lparr>zoroFields = [''price''],
          mappingRules = [\<lparr>supplierFile = [], mappings = JArr [JNull]\<rparr>]\<rparr>) = Inl TypeError"
proof -
  let ?o = "oracle_failing (ApiError ''timeout'')"
  let ?ag = "\<lparr>zoroFields = [''price''],
          mappingRules = [\<lparr>supplierFile = [], mappings = JArr [JNull]\<rparr>]\<rparr>"
  have g: "fst (generateMappingSuggestions ?o sample_parse
             (zoroFields (loadZoroFields new_agent)) loadSupplierFields empty_world) =
           Inl (ApiError ''timeout'')"
    by (simp add: generateMappingSuggestions_def Let_def oracle_failing_def)
  have b: "format_rule \<lparr>supplierFile = [], mappings = JArr [JNull]\<rparr> = Inl TypeError"
    by (simp add: eval_defs)
  have fin: "fst (getFinalMappingStructure ?ag) = Inl TypeError"
    using failures_rethrown_by_the_request_caught_by_processing
            [where this = ?ag and ask = ?o and JSON_parse = sample_parse
               and w = empty_world and zs = "[]" and ss = "[]"] b
    by auto
  from failures_rethrown_by_the_request_caught_by_processing
         [where this = new_agent and ask = ?o and JSON_parse = sample_parse
            and w = empty_world and zs = "zoroFields (loadZoroFields new_agent)"
            and ss = loadSupplierFields] g fin
  show ?thesis by (simp add: empty_world_def)
qed

text \<open>
  C3 as stated fails: a failure of the oracle is thrown by \<open>generateMappingSuggestions\<close>
  and then caught in \<open>processAllSupplierFiles\<close>, which returns normally; and a suggestion
  naming the unknown field \<^verbatim>\<open>weight\<close> is not discarded.
\<close>

theorem failure_caught_counterexample:
  "fst (generateMappingSuggestions (oracle_failing (ApiError ''rate limit'')) sample_parse
          (zoroFields (loadZoroFields new_agent)) loadSupplierFields empty_world) =
     Inl (ApiError ''rate limit'') \<and>
   fst (processAllSupplierFiles (oracle_failing (ApiError ''rate limit'')) sample_parse
          new_agent empty_world) = Inr () \<and>
   mappingRules (fst (snd (processAllSupplierFiles (oracle_failing (ApiError ''rate limit''))
                             sample_parse new_agent empty_world))) = [] \<and>
   fst (getFinalMappingStructure
         \<lparr>zoroFields = [''price''],
          mappingRules = [\<lparr>supplierFile = [], mappings =
             JArr [JObj [(''zoroField'', JStr ''weight''), (''direct'', JStr ''KG'')]]\<rparr>]\<rparr>) =
     Inr [\<lparr>props = [(''weight'', \<lparr>direct = JStr ''KG'', formula = JStr []\<rparr>)],
           prototype = None\<rparr>]"
  by (simp add: eval_defs process_returns process_agent generate_result oracle_failing_def
        new_agent_def loadZoroFields_def)


lemma process_rules:
  "mappingRules (fst (snd (processAllSupplierFiles oracle JSON_parse this w))) =
     (case fst (generateMappingSuggestions oracle JSON_parse
                  (zoroFields (loadZoroFields this)) loadSupplierFields w) of
        Inl e \<Rightarrow> mappingRules this
      | Inr parsed \<Rightarrow>
          (case get_member parsed ''mappings'' of
             Inl e \<Rightarrow> mappingRules this
           | Inr m \<Rightarrow> mappingRules this @ [\<lparr>supplierFile = [], mappings = m\<rparr>]))"
  by (simp add: process_agent loaded_rules split: sum.splits)

text \<open>
  C4.  What holds in place of the stated check of the shape.  When the oracle answers the
  request of \<open>processAllSupplierFiles\<close> and \<^verbatim>\<open>JSON.parse\<close> throws on the text of the answer,
  \<open>generateMappingSuggestions\<close> fails with that exception, no rule is stored, and
  \<open>getFinalMappingStructure\<close> returns afterwards what it returned before: no table is
  produced for the invocation.
\<close>

theorem unparsable_response_stores_no_rule:
  assumes answered: "ask supplier_request = Inr r"
    and content_read: "read_content r = Inr text"
    and not_parsed: "JSON_parse text = Inl e"
  shows "fst (generateMappingSuggestions ask JSON_parse
               (zoroFields (loadZoroFields this)) loadSupplierFields w) = Inl e \<and>
         mappingRules (fst (snd (processAllSupplierFiles ask JSON_parse this w))) =
           mappingRules this \<and>
         fst (getFinalMappingStructure
               (fst (snd (processAllSupplierFiles ask JSON_parse this w)))) =
           fst (getFinalMappingStructure this)"
proof -
  have g: "fst (generateMappingSuggestions ask JSON_parse
               (zoroFields (loadZoroFields this)) loadSupplierFields w) = Inl e"
    using answered content_read not_parsed
    by (simp add: generate_result loaded_fields[of this] supplier_request_def)
  then have a: "fst (snd (processAllSupplierFiles ask JSON_parse this w)) = loadZoroFields this"
    by (simp add: process_agent)
  then have m: "mappingRules (fst (snd (processAllSupplierFiles ask JSON_parse this w))) =
           mappingRules this"
    by (simp add: loaded_rules)
  from g m getFinal_rules_only[OF m] show ?thesis by simp
qed

theorem unparsable_response_witness:
  "sample_parse ''not json'' = Inl SyntaxError \<and>
   fst (generateMappingSuggestions (oracle_replying ''not json'') sample_parse
          (zoroFields (loadZoroFields new_agent)) loadSupplierFields empty_world) =
     Inl SyntaxError \<and>
   mappingRules (fst (snd (processAllSupplierFiles (oracle_replying ''not json'') sample_parse
                             new_agent empty_world))) = [] \<and>
   fst (getFinalMappingStructure
         (fst (snd (processAllSupplierFiles (oracle_replying ''not json'') sample_parse
                      new_agent empty_world)))) = Inr []"
proof -
  let ?r = "\<lparr>choices = [\<lparr>message = \<lparr>content = Some ''not json''\<rparr>\<rparr>]\<rparr>"
  have h1: "oracle_replying ''not json'' supplier_request = Inr ?r"
    by (simp add: oracle_replying_def)
  have h2: "read_content ?r = Inr ''not json''"
    by (simp add: read_content_def)
  have h3: "sample_parse ''not json'' = Inl SyntaxError"
    by (simp add: sample_parse_def price_text_def wrong_shape_text_def)
  from unparsable_response_stores_no_rule
         [where ask = "oracle_replying ''not json''" and JSON_parse = sample_parse
            and r = ?r and ?text = "''not json''" and e = SyntaxError
            and this = new_agent and w = empty_world, OF h1 h2 h3] h3
  show ?thesis by (simp add: new_agent_def getFinalMappingStructure_def)
qed

text \<open>
  C4 as stated fails for a text that is JSON of another shape: the answer
  \<^verbatim>\<open>{"mappings":[{"foo":"bar"}]}\<close> is returned without an error and gives the table
  \<^verbatim>\<open>{undefined: {direct: "", formula: ""}}\<close>; the answer \<^verbatim>\<open>{}\<close> is returned without an error
  and stores a rule whose \<^verbatim>\<open>mappings\<close> is \<^verbatim>\<open>undefined\<close>.
\<close>

theorem wrong_shape_accepted_counterexample:
  "fst (generateMappingSuggestions (oracle_replying wrong_shape_text) sample_parse
          (zoroFields (loadZoroFields new_agent)) loadSupplierFields empty_world) =
     Inr (JObj [(''mappings'', JArr [JObj [(''foo'', JStr ''bar'')]])]) \<and>
   fst (getFinalMappingStructure
         (fst (snd (processAllSupplierFiles (oracle_replying wrong_shape_text) sample_parse
                      new_agent empty_world)))) =
     Inr [\<lparr>props = [(''undefined'', \<lparr>direct = JStr [], formula = JStr []\<rparr>)],
           prototype = None\<rparr>] \<and>
   fst (generateMappingSuggestions (oracle_replying ''{}'') sample_parse
          (zoroFields (loadZoroFields new_agent)) loadSupplierFields empty_world) =
     Inr (JObj []) \<and>
   mappingRules (fst (snd (processAllSupplierFiles (oracle_replying ''{}'') sample_parse
                             new_agent empty_world))) =
     [\<lparr>supplierFile = [], mappings = JUndefined\<rparr>]"
proof -
  have p1: "sample_parse wrong_shape_text =
              Inr (JObj [(''mappings'', JArr [JObj [(''foo'', JStr ''bar'')]])])"
    by (simp add: sample_parse_def price_text_def wrong_shape_text_def)
  have p2: "sample_parse ''{}'' = Inr (JObj [])"
    by (simp add: sample_parse_def price_text_def wrong_shape_text_def)
  have g1: "fst (generateMappingSuggestions (oracle_replying wrong_shape_text) sample_parse
          (zoroFields (loadZoroFields new_agent)) loadSupplierFields empty_world) =
     Inr (JObj [(''mappings'', JArr [JObj [(''foo'', JStr ''bar'')]])])"
    by (simp add: generate_result oracle_replying_def read_content_def p1)
  have g2: "fst (generateMappingSuggestions (oracle_replying ''{}'') sample_parse
          (zoroFields (loadZoroFields new_agent)) loadSupplierFields empty_world) =
     Inr (JObj [])"
    by (simp add: generate_result oracle_replying_def read_content_def p2)
  have n: "mappingRules new_agent = []"
    by (simp add: new_agent_def)
  have r1: "mappingRules (fst (snd (processAllSupplierFiles (oracle_replying wrong_shape_text)
                sample_parse new_agent empty_world))) =
            [\<lparr>supplierFile = [], mappings = JArr [JObj [(''foo'', JStr ''bar'')]]\<rparr>]"
    by (simp add: process_rules g1 n)
  have r2: "mappingRules (fst (snd (processAllSupplierFiles (oracle_replying ''{}'')
                sample_parse new_agent empty_world))) =
            [\<lparr>supplierFile = [], mappings = JUndefined\<rparr>]"
    by (simp add: process_rules g2 n)
  have f1: "fst (getFinalMappingStructure
         (fst (snd (processAllSupplierFiles (oracle_replying wrong_shape_text) sample_parse
                      new_agent empty_world)))) =
     Inr [\<lparr>props = [(''undefined'', \<lparr>direct = JStr [], formula = JStr []\<rparr>)],
           prototype = None\<rparr>]"
    by (simp add: getFinalMappingStructure_def r1)
       (simp add: format_rule_def forEach_mapping.simps store_mapping_def set_property_def
          empty_table_def js_or_def)
  from g1 f1 g2 r2 show ?thesis by simp
qed

lemma getFinal_append:
  "fst (getFinalMappingStructure (this\<lparr>mappingRules := rs @ new\<rparr>)) = Inr tbls' \<Longrightarrow>
   fst (getFinalMappingStructure (this\<lparr>mappingRules := rs\<rparr>)) = Inr (take (length rs) tbls')"
  by (simp add: getFinal_Inr list_all2_append1) (auto simp: list_all2_lengthD)

text \<open>
  C6.  What holds in place of the stated independence.  An invocation of
  \<open>processAllSupplierFiles\<close> appends at most one rule to the list \<open>mappingRules\<close> that all
  invocations share, exactly one when the request returns a value whose \<^verbatim>\<open>mappings\<close> can be
  read, and changes no rule stored before: the table formatted from an earlier rule is
  the same before and after.  Whenever \<open>getFinalMappingStructure\<close> returns after the
  invocation, its tables for the earlier rules are those it returned before.  When the
  rule appended cannot be formatted, \<open>getFinalMappingStructure\<close> fails afterwards, for
  the earlier suppliers too.
\<close>

theorem earlier_rules_and_tables_unchanged:
  assumes run: "processAllSupplierFiles oracle JSON_parse this w = (res, this', w')"
  shows "(\<exists>new. mappingRules this' = mappingRules this @ new \<and> length new \<le> 1) \<and>
         (\<forall>parsed m. fst (generateMappingSuggestions oracle JSON_parse
                            (zoroFields (loadZoroFields this)) loadSupplierFields w) = Inr parsed \<longrightarrow>
              get_member parsed ''mappings'' = Inr m \<longrightarrow>
              mappingRules this' = mappingRules this @ [\<lparr>supplierFile = [], mappings = m\<rparr>] \<and>
              (\<not> well_formed \<lparr>supplierFile = [], mappings = m\<rparr> \<longrightarrow>
                 fst (getFinalMappingStructure this') = Inl TypeError)) \<and>
         (\<forall>i<length (mappingRules this).
              mappingRules this' ! i = mappingRules this ! i \<and>
              format_rule (mappingRules this' ! i) = format_rule (mappingRules this ! i)) \<and>
         (\<forall>tbls'. fst (getFinalMappingStructure this') = Inr tbls' \<longrightarrow>
              fst (getFinalMappingStructure this) =
                Inr (take (length (mappingRules this)) tbls'))"
proof -
  have t: "this' = fst (snd (processAllSupplierFiles oracle JSON_parse this w))"
    using run by simp
  have "\<exists>new. mappingRules this' = mappingRules this @ new \<and> length new \<le> 1"
    unfolding t by (simp add: process_rules split: sum.splits)
  then obtain new where new: "mappingRules this' = mappingRules this @ new"
    and len: "length new \<le> 1"
    by blast
  have b: "mappingRules this' = mappingRules this @ [\<lparr>supplierFile = [], mappings = m\<rparr>]"
    if "fst (generateMappingSuggestions oracle JSON_parse
              (zoroFields (loadZoroFields this)) loadSupplierFields w) = Inr parsed"
      and "get_member parsed ''mappings'' = Inr m" for parsed m
    unfolding t using that by (simp add: process_rules)
  have b': "fst (getFinalMappingStructure this') = Inl TypeError"
    if g: "fst (generateMappingSuggestions oracle JSON_parse
              (zoroFields (loadZoroFields this)) loadSupplierFields w) = Inr parsed"
      and m: "get_member parsed ''mappings'' = Inr m"
      and bad: "\<not> well_formed \<lparr>supplierFile = [], mappings = m\<rparr>" for parsed m
  proof -
    let ?r = "\<lparr>supplierFile = [], mappings = m\<rparr>"
    from b[OF g m] have "?r \<in> set (mappingRules this')" by simp
    moreover from bad obtain e where "format_rule ?r = Inl e"
      using format_rule_total[of ?r] by (cases "format_rule ?r") auto
    ultimately show ?thesis by (rule getFinal_fails_on_bad_rule)
  qed
  have c: "mappingRules this' ! i = mappingRules this ! i \<and>
           format_rule (mappingRules this' ! i) = format_rule (mappingRules this ! i)"
    if "i < length (mappingRules this)" for i
    using that new by (simp add: nth_append)
  have d: "fst (getFinalMappingStructure this) = Inr (take (length (mappingRules this)) tbls')"
    if "fst (getFinalMappingStructure this') = Inr tbls'" for tbls'
  proof -
    have "fst (getFinalMappingStructure (this'\<lparr>mappingRules := mappingRules this @ new\<rparr>)) =
            Inr tbls'"
      using that new getFinal_rules_only[of "this'\<lparr>mappingRules := mappingRules this @ new\<rparr>" this']
      by simp
    from getFinal_append[OF this]
    show ?thesis
      using getFinal_rules_only[of "this'\<lparr>mappingRules := mappingRules this\<rparr>" this] by simp
  qed
  from new len b b' c d show ?thesis by blast
qed

lemma sample_parse_price:
  "sample_parse price_text =
     Inr (JObj [(''mappings'',
            JArr [JObj [(''zoroField'', JStr ''price''), (''direct'', JStr ''PRICE''),
                        (''formula'', JStr [])]])])"
  by (simp add: sample_parse_def)

lemma rules_after_price:
  "mappingRules (fst (snd (processAllSupplierFiles (oracle_replying price_text) sample_parse
                             this empty_world))) =
     mappingRules this @
       [\<lparr>supplierFile = [], mappings =
           JArr [JObj [(''zoroField'', JStr ''price''), (''direct'', JStr ''PRICE''),
                       (''formula'', JStr [])]]\<rparr>]"
  by (simp add: process_rules generate_result oracle_replying_def read_content_def
        sample_parse_price)

lemma rules_agent_after_price:
  "mappingRules agent_after_price =
     [\<lparr>supplierFile = [], mappings =
         JArr [JObj [(''zoroField'', JStr ''price''), (''direct'', JStr ''PRICE''),
                     (''formula'', JStr [])]]\<rparr>]"
  by (simp add: agent_after_price_def rules_after_price new_agent_def)

lemmas format_defs = getFinalMappingStructure_def format_rule_def forEach_mapping.simps
  store_mapping_def set_property_def empty_table_def js_or_def

theorem earlier_tables_witness:
  "fst (getFinalMappingStructure
         (fst (snd (processAllSupplierFiles (oracle_replying price_text) sample_parse
                      agent_after_price empty_world)))) =
     Inr [\<lparr>props = [(''price'', \<lparr>direct = JStr ''PRICE'', formula = JStr []\<rparr>)],
           prototype = None\<rparr>,
          \<lparr>props = [(''price'', \<lparr>direct = JStr ''PRICE'', formula = JStr []\<rparr>)],
           prototype = None\<rparr>] \<and>
   fst (getFinalMappingStructure agent_after_price) =
     Inr [\<lparr>props = [(''price'', \<lparr>direct = JStr ''PRICE'', formula = JStr []\<rparr>)],
           prototype = None\<rparr>]"
proof -
  let ?p = "processAllSupplierFiles (oracle_replying price_text) sample_parse
              agent_after_price empty_world"
  let ?t = "\<lparr>props = [(''price'', \<lparr>direct = JStr ''PRICE'', formula = JStr []\<rparr>)],
           prototype = None\<rparr>"
  have h: "?p = (fst ?p, fst (snd ?p), snd (snd ?p))" by simp
  have after: "fst (getFinalMappingStructure (fst (snd ?p))) = Inr [?t, ?t]"
    by (simp add: getFinalMappingStructure_def rules_after_price rules_agent_after_price)
       (simp add: format_defs)
  from earlier_rules_and_tables_unchanged[OF h] after
  have "fst (getFinalMappingStructure agent_after_price) =
          Inr (take (length (mappingRules agent_after_price)) [?t, ?t])"
    by blast
  with after show ?thesis by (simp add: rules_agent_after_price)
qed

text \<open>
  C6 as stated fails: after an invocation answered with \<open>price_text\<close> the final structure
  holds the table of that supplier; a second invocation answered with \<^verbatim>\<open>{}\<close> appends a rule
  whose \<^verbatim>\<open>mappings\<close> is \<^verbatim>\<open>undefined\<close>, and \<open>getFinalMappingStructure\<close> then fails: the
  result for the first supplier is no longer returned.
\<close>

theorem later_invocation_counterexample:
  "fst (getFinalMappingStructure agent_after_price) =
     Inr [\<lparr>props = [(''price'', \<lparr>direct = JStr ''PRICE'', formula = JStr []\<rparr>)],
           prototype = None\<rparr>] \<and>
   mappingRules (fst (snd (processAllSupplierFiles (oracle_replying ''{}'') sample_parse
                      agent_after_price empty_world))) =
     mappingRules agent_after_price @ [\<lparr>supplierFile = [], mappings = JUndefined\<rparr>] \<and>
   fst (getFinalMappingStructure
         (fst (snd (processAllSupplierFiles (oracle_replying ''{}'') sample_parse
                      agent_after_price empty_world)))) = Inl TypeError"
proof -
  have p2: "sample_parse ''{}'' = Inr (JObj [])"
    by (simp add: sample_parse_def price_text_def wrong_shape_text_def)
  have r: "mappingRules (fst (snd (processAllSupplierFiles (oracle_replying ''{}'') sample_parse
                      agent_after_price empty_world))) =
     mappingRules agent_after_price @ [\<lparr>supplierFile = [], mappings = JUndefined\<rparr>]"
    by (simp add: process_rules generate_result oracle_replying_def read_content_def p2)
  have a: "fst (getFinalMappingStructure agent_after_price) =
     Inr [\<lparr>props = [(''price'', \<lparr>direct = JStr ''PRICE'', formula = JStr []\<rparr>)],
           prototype = None\<rparr>]"
    by (simp add: getFinalMappingStructure_def rules_agent_after_price) (simp add: format_defs)
  have b: "fst (getFinalMappingStructure
         (fst (snd (processAllSupplierFiles (oracle_replying ''{}'') sample_parse
                      agent_after_price empty_world)))) = Inl TypeError"
    by (simp add: getFinalMappingStructure_def r rules_agent_after_price) (simp add: format_defs)
  from a r b show ?thesis by simp
qed

end
